theory Spec2Isabelle
  imports Main
begin

section \<open>Python values used by the server\<close>

text \<open>
  A Python \<open>str\<close> is modelled as a \<open>string\<close>, standing for its UTF-8 bytes. The server
  only tests strings for emptiness and equality and concatenates them, which the byte
  view preserves. A \<open>dict\<close> keeps insertion order, so it is an association list;
  \<open>dict_set\<close> is the assignment \<open>d[k] = v\<close>: an existing key keeps its place and
  gets the new value, a new key goes to the end.
\<close>

type_synonym 'v dict = "(string \<times> 'v) list"

fun dict_set :: "string \<Rightarrow> 'v \<Rightarrow> 'v dict \<Rightarrow> 'v dict" where
  "dict_set k v [] = [(k, v)]"
| "dict_set k v (p # d) = (if fst p = k then (k, v) # d else p # dict_set k v d)"

definition dict_keys :: "'v dict \<Rightarrow> string list" where
  "dict_keys d = map fst d"

definition dict_contains :: "string \<Rightarrow> 'v dict \<Rightarrow> bool" where
  "dict_contains k d = (k \<in> set (dict_keys d))"

text \<open>\<open>d.get(k, dflt)\<close>.\<close>

definition dict_get :: "'v dict \<Rightarrow> string \<Rightarrow> 'v \<Rightarrow> 'v" where
  "dict_get d k dflt = (case map_of d k of Some v \<Rightarrow> v | None \<Rightarrow> dflt)"

text \<open>\<open>d.update(e)\<close>: every item of \<open>e\<close> is assigned into \<open>d\<close>, in order.\<close>

fun dict_update :: "'v dict \<Rightarrow> 'v dict \<Rightarrow> 'v dict" where
  "dict_update d [] = d"
| "dict_update d (p # e) = dict_update (dict_set (fst p) (snd p) d) e"

section \<open>Agents and the process state\<close>

text \<open>
  A transfer function is a closure over its target agent. The model keeps what the
  closure holds: the registry key under which the target object is stored (the identity
  of the object it returns) and the target's \<open>name\<close> field, from which the closure's
  \<open>__name__\<close> and \<open>__doc__\<close> are formatted.
\<close>

record transfer_function =
  target_key :: string
  target_name :: string

record agent =
  name :: string
  model :: string
  instructions :: string
  functions_of :: "transfer_function list"

type_synonym message = "string dict"

text \<open>
  The storage file holds JSON. The text layer of the \<open>json\<close> library is not part of the
  server: the file is modelled by what \<open>json.load\<close> makes of it. \<open>JOther\<close> stands for
  every JSON value that is neither a string nor an object.
\<close>

datatype json = JStr string | JObj "(string \<times> json) list" | JOther

datatype stored = Missing | Unparseable | Doc json

datatype error = OSError | JSONDecodeError | AttributeError | TypeError | KeyError string

datatype log_event =
    Loaded nat
  | Load_error error
  | Saved nat
  | Save_error error
  | Setup_done nat
  | Created_agent string
  | Swarm_completed string string
  | Swarm_error string
  | Created_team "string list"

text \<open>
  The module's globals, the storage file, the lines printed to \<open>stderr\<close> (one event
  per \<open>print\<close>) and the calls made to \<open>swarm_client.run\<close>.
\<close>

record world =
  agents :: "agent dict"
  conversation_history :: "message list"
  current_agent :: "string option"
  context_variables :: "string dict"
  agents_file :: stored
  file_writable :: bool
  stderr :: "log_event list"
  swarm_calls :: "(agent \<times> message list \<times> string dict) list"

definition initial_world :: "stored \<Rightarrow> bool \<Rightarrow> world" where
  "initial_world f wr =
     \<lparr>agents = [], conversation_history = [], current_agent = None,
      context_variables = [], agents_file = f, file_writable = wr,
      stderr = [], swarm_calls = []\<rparr>"

definition print_stderr :: "log_event \<Rightarrow> world \<Rightarrow> world" where
  "print_stderr e w = w\<lparr>stderr := stderr w @ [e]\<rparr>"

text \<open>Python truthiness of \<open>current_agent\<close>: \<open>None\<close> and the empty string are false.\<close>

fun truthy :: "string option \<Rightarrow> bool" where
  "truthy None = False"
| "truthy (Some s) = (s \<noteq> [])"

section \<open>Relation builder\<close>

definition create_transfer :: "string \<Rightarrow> agent \<Rightarrow> transfer_function" where
  "create_transfer k target = \<lparr>target_key = k, target_name = name target\<rparr>"

text \<open>First loop of \<open>_setup_transfer_functions\<close>: one closure per registered agent.\<close>

fun transfer_functions :: "agent dict \<Rightarrow> transfer_function dict \<Rightarrow> transfer_function dict" where
  "transfer_functions [] tf = tf"
| "transfer_functions (p # reg) tf =
     transfer_functions reg (dict_set (fst p) (create_transfer (fst p) (snd p)) tf)"

text \<open>Second loop: every agent gets the closures of all the other keys.\<close>

definition attach_functions :: "transfer_function dict \<Rightarrow> string \<times> agent \<Rightarrow> string \<times> agent" where
  "attach_functions tf p =
     (fst p, (snd p)\<lparr>functions_of := map snd (filter (\<lambda>q. fst q \<noteq> fst p) tf)\<rparr>)"

definition rebuild :: "agent dict \<Rightarrow> agent dict" where
  "rebuild reg = map (attach_functions (transfer_functions reg [])) reg"

definition setup_transfer_functions :: "world \<Rightarrow> world" where
  "setup_transfer_functions w =
     print_stderr (Setup_done (length (agents w))) (w\<lparr>agents := rebuild (agents w)\<rparr>)"

section \<open>Storage\<close>

text \<open>
  \<open>save_agents\<close> builds \<open>agent_data\<close>, opens the file with mode \<open>'w'\<close> and dumps the
  data into it. Opening for writing truncates the file at once, so between the two
  statements the file is empty, which \<open>json.load\<close> rejects. \<open>file_writable\<close> says
  whether \<open>open\<close> succeeds; when it raises, the handler of \<open>save_agents\<close> prints the
  error.
\<close>

definition agent_record :: "agent \<Rightarrow> json" where
  "agent_record a =
     JObj [(''name'', JStr (name a)), (''model'', JStr (model a)),
           (''instructions'', JStr (instructions a))]"

fun agent_data :: "agent dict \<Rightarrow> json dict \<Rightarrow> json dict" where
  "agent_data [] d = d"
| "agent_data (p # reg) d = agent_data reg (dict_set (fst p) (agent_record (snd p)) d)"

definition open_w :: "world \<Rightarrow> error + world" where
  "open_w w = (if file_writable w then Inr (w\<lparr>agents_file := Unparseable\<rparr>) else Inl OSError)"

definition json_dump :: "json \<Rightarrow> world \<Rightarrow> world" where
  "json_dump j w = w\<lparr>agents_file := Doc j\<rparr>"

definition save_agents :: "world \<Rightarrow> world" where
  "save_agents w =
     (let d = agent_data (agents w) []
      in case open_w w of
           Inl e \<Rightarrow> print_stderr (Save_error e) w
         | Inr w1 \<Rightarrow> print_stderr (Saved (length (agents w))) (json_dump (JObj d) w1))"


text \<open>\<open>data[k]\<close> on a loaded JSON value.\<close>

definition subscript :: "json \<Rightarrow> string \<Rightarrow> error + json" where
  "subscript j k =
     (case j of
        JObj d \<Rightarrow> (case map_of d k of Some v \<Rightarrow> Inr v | None \<Rightarrow> Inl (KeyError k))
      | JStr s \<Rightarrow> Inl TypeError
      | JOther \<Rightarrow> Inl TypeError)"

text \<open>
  Modelled from the spec: the constructor \<open>ClaudeAgent\<close> of the imported framework, which
  is not part of the sources. The spec's AgentRecord has strings for \<open>name\<close>,
  \<open>model\<close> and \<open>instructions\<close>; a value of another JSON type is rejected.
\<close>

definition ClaudeAgent :: "json \<Rightarrow> json \<Rightarrow> json \<Rightarrow> error + agent" where
  "ClaudeAgent n m i =
     (case (n, m, i) of
        (JStr n', JStr m', JStr i') \<Rightarrow>
          Inr \<lparr>name = n', model = m', instructions = i', functions_of = []\<rparr>
      | _ \<Rightarrow> Inl TypeError)"

definition agent_of_json :: "json \<Rightarrow> error + agent" where
  "agent_of_json data =
     (case subscript data ''name'' of
        Inl e \<Rightarrow> Inl e
      | Inr n \<Rightarrow>
          (case subscript data ''model'' of
             Inl e \<Rightarrow> Inl e
           | Inr m \<Rightarrow>
               (case subscript data ''instructions'' of
                  Inl e \<Rightarrow> Inl e
                | Inr i \<Rightarrow> ClaudeAgent n m i)))"

text \<open>
  The loop of \<open>load_agents\<close>. An exception leaves the loop with the agents inserted so
  far still in the registry, so the result carries the world in both cases.
\<close>

fun load_items :: "json dict \<Rightarrow> world \<Rightarrow> error option \<times> world" where
  "load_items [] w = (None, w)"
| "load_items (p # items) w =
     (case agent_of_json (snd p) of
        Inl e \<Rightarrow> (Some e, w)
      | Inr a \<Rightarrow> load_items items (w\<lparr>agents := dict_set (fst p) a (agents w)\<rparr>))"

definition set_first_current :: "world \<Rightarrow> world" where
  "set_first_current w =
     (case agents w of
        [] \<Rightarrow> w
      | p # _ \<Rightarrow> if \<not> truthy (current_agent w) then w\<lparr>current_agent := Some (fst p)\<rparr> else w)"

definition load_agents :: "world \<Rightarrow> world" where
  "load_agents w =
     (case agents_file w of
        Missing \<Rightarrow> print_stderr (Loaded (length (agents w))) w
      | Unparseable \<Rightarrow> print_stderr (Load_error JSONDecodeError) w
      | Doc j \<Rightarrow>
          (case j of
             JObj items \<Rightarrow>
               (case load_items items w of
                  (Some e, w1) \<Rightarrow> print_stderr (Load_error e) w1
                | (None, w1) \<Rightarrow>
                    (let w2 = set_first_current (setup_transfer_functions w1)
                     in print_stderr (Loaded (length (agents w2))) w2))
           | JStr s \<Rightarrow> print_stderr (Load_error AttributeError) w
           | JOther \<Rightarrow> print_stderr (Load_error AttributeError) w))"

section \<open>Reply texts\<close>

definition cross_mark :: string where
  "cross_mark = [CHR 0xE2, CHR 0x9D, CHR 0x8C]"

definition check_mark :: string where
  "check_mark = [CHR 0xE2, CHR 0x9C, CHR 0x85]"

definition robot_face :: string where
  "robot_face = [CHR 0xF0, CHR 0x9F, CHR 0xA4, CHR 0x96]"

definition cycle_arrows :: string where
  "cycle_arrows = [CHR 0xF0, CHR 0x9F, CHR 0x94, CHR 0x84]"

definition light_bulb :: string where
  "light_bulb = [CHR 0xF0, CHR 0x9F, CHR 0x92, CHR 0xA1]"

definition bullet :: string where
  "bullet = [CHR 0xE2, CHR 0x80, CHR 0xA2]"

definition right_arrow :: string where
  "right_arrow = [CHR 0xE2, CHR 0x86, CHR 0x92]"

definition newline :: string where
  "newline = [CHR 0x0A]"

definition quote :: string where
  "quote = [CHR 0x27]"

text \<open>A reply is a failure text when it starts with the cross mark.\<close>

definition is_failure_text :: "string \<Rightarrow> bool" where
  "is_failure_text s = (take 3 s = cross_mark)"

definition is_success_text :: "string \<Rightarrow> bool" where
  "is_success_text s = (take 3 s = check_mark)"

fun join :: "string \<Rightarrow> string list \<Rightarrow> string" where
  "join sep [] = []"
| "join sep [x] = x"
| "join sep (x # y # ys) = x @ sep @ join sep (y # ys)"

section \<open>create_agent\<close>

definition default_model :: string where
  "default_model = ''claude-3-5-sonnet-20241022''"

definition name_and_instructions_required :: string where
  "name_and_instructions_required = cross_mark @ '' Name and instructions required''"

definition agent_already_exists :: "string \<Rightarrow> string" where
  "agent_already_exists n = cross_mark @ '' Agent '' @ quote @ n @ quote @ '' already exists''"

definition created_swarm_agent :: "string \<Rightarrow> string" where
  "created_swarm_agent n =
     check_mark @ '' Created Swarm agent '' @ quote @ n @ quote @ '' with transfer capabilities!''"

definition create_agent_handler :: "string dict \<Rightarrow> world \<Rightarrow> string \<times> world" where
  "create_agent_handler args w =
     (let n = dict_get args ''name'' [];
          i = dict_get args ''instructions'' [];
          m = dict_get args ''model'' default_model
      in if n = [] \<or> i = [] then (name_and_instructions_required, w)
         else if dict_contains n (agents w) then (agent_already_exists n, w)
         else
           (let a = \<lparr>name = n, model = m, instructions = i, functions_of = []\<rparr>;
                w1 = w\<lparr>agents := dict_set n a (agents w)\<rparr>;
                w2 = setup_transfer_functions w1;
                w3 = (if \<not> truthy (current_agent w2) then w2\<lparr>current_agent := Some n\<rparr> else w2);
                w4 = save_agents w3
            in (created_swarm_agent n, print_stderr (Created_agent n) w4)))"

section \<open>chat_with_swarm\<close>

text \<open>
  The orchestration call \<open>swarm_client.run\<close> belongs to the imported framework: it is a
  parameter of the handler. It either raises (\<open>Inl\<close> of the exception's text) or
  returns a response with the new transcript, the agent active at the end and context
  values. It is taken as a function of its arguments: it does not itself change the
  list and the dictionary it is given.
\<close>

record response =
  resp_messages :: "message list"
  resp_agent :: agent
  resp_context_variables :: "string dict"

type_synonym swarm_run = "agent \<Rightarrow> message list \<Rightarrow> string dict \<Rightarrow> string + response"

definition message_required :: string where
  "message_required = cross_mark @ '' Message is required''"

definition no_agents_available :: string where
  "no_agents_available = cross_mark @ '' No agents available. Create agents first.''"

definition swarm_error :: "string \<Rightarrow> string" where
  "swarm_error e = cross_mark @ '' Swarm error: '' @ e"

definition user_message :: "string \<Rightarrow> message" where
  "user_message m = [(''role'', ''user''), (''content'', m)]"

text \<open>\<open>args.get("agent_name", current_agent)\<close>.\<close>

definition starting_agent_name :: "string dict \<Rightarrow> world \<Rightarrow> string option" where
  "starting_agent_name args w =
     (case map_of args ''agent_name'' of Some v \<Rightarrow> Some v | None \<Rightarrow> current_agent w)"

text \<open>
  The choice of the starting agent, for a registry whose first item is \<open>first\<close>: the
  named agent when the name is true and a key of the registry, the first agent otherwise.
\<close>

definition starting_agent :: "string option \<Rightarrow> agent dict \<Rightarrow> string \<times> agent \<Rightarrow> string \<times> agent" where
  "starting_agent san reg first =
     (case san of
        None \<Rightarrow> first
      | Some n \<Rightarrow>
          if n \<noteq> [] then (case map_of reg n of Some a \<Rightarrow> (n, a) | None \<Rightarrow> first)
          else first)"

definition agent_transfer :: "string \<Rightarrow> string \<Rightarrow> string" where
  "agent_transfer src dst =
     newline @ newline @ cycle_arrows @ '' **Agent Transfer**: '' @ src @ '' '' @ right_arrow
       @ '' '' @ dst"

definition swarm_reply :: "string \<Rightarrow> string \<Rightarrow> string \<Rightarrow> string" where
  "swarm_reply who content transfer_info =
     robot_face @ '' **'' @ who @ ''**:'' @ newline @ newline @ content @ transfer_info"

definition chat_with_swarm_handler :: "swarm_run \<Rightarrow> string dict \<Rightarrow> world \<Rightarrow> string \<times> world" where
  "chat_with_swarm_handler run args w =
     (let msg = dict_get args ''message'' [];
          san = starting_agent_name args w
      in if msg = [] then (message_required, w)
         else
           (case agents w of
              [] \<Rightarrow> (no_agents_available, w)
            | first # _ \<Rightarrow>
                (let start = starting_agent san (agents w) first;
                     w1 = w\<lparr>conversation_history := conversation_history w @ [user_message msg]\<rparr>;
                     w2 = w1\<lparr>swarm_calls := swarm_calls w1 @
                            [(snd start, conversation_history w1, context_variables w1)]\<rparr>
                 in case run (snd start) (conversation_history w1) (context_variables w1) of
                      Inl e \<Rightarrow> (swarm_error e, print_stderr (Swarm_error e) w2)
                    | Inr r \<Rightarrow>
                        (let w3 = w2\<lparr>conversation_history := resp_messages r,
                                      current_agent := Some (name (resp_agent r)),
                                      context_variables :=
                                        dict_update (context_variables w2) (resp_context_variables r)\<rparr>;
                             last_message =
                               (if resp_messages r \<noteq> [] then last (resp_messages r) else []);
                             agent_response = dict_get last_message ''content'' ''No response'';
                             transfer_info =
                               (if name (resp_agent r) \<noteq> fst start
                                then agent_transfer (fst start) (name (resp_agent r)) else [])
                         in (swarm_reply (name (resp_agent r)) agent_response transfer_info,
                             print_stderr (Swarm_completed (fst start) (name (resp_agent r))) w3)))))"

section \<open>create_finance_team\<close>

record team_spec =
  spec_instructions :: string
  spec_model :: string

definition team_specs :: "string \<Rightarrow> team_spec dict" where
  "team_specs company_name =
     [(''Risk_Analyst'',
       \<lparr>spec_instructions =
          ''You are a quantitative risk analyst for '' @ company_name @
          ''. When users ask about portfolio optimization or investment strategies, transfer to the Portfolio Manager. For market research questions, transfer to the Research Analyst. You specialize in VaR, stress testing, and risk metrics.'',
        spec_model = ''claude-3-5-sonnet-20241022''\<rparr>),
      (''Portfolio_Manager'',
       \<lparr>spec_instructions =
          ''You are a portfolio manager for '' @ company_name @
          ''. When users ask about risk calculations, transfer to the Risk Analyst. For market analysis, transfer to the Research Analyst. For data questions, transfer to the Data Analyst. You specialize in optimization and asset allocation.'',
        spec_model = ''claude-3-5-sonnet-20241022''\<rparr>),
      (''Data_Analyst'',
       \<lparr>spec_instructions =
          ''You are a financial data analyst for '' @ company_name @
          ''. When users ask about risk assessment, transfer to the Risk Analyst. For investment advice, transfer to the Portfolio Manager. You specialize in data collection and analysis.'',
        spec_model = ''claude-3-5-sonnet-20241022''\<rparr>),
      (''Research_Analyst'',
       \<lparr>spec_instructions =
          ''You are a research analyst for '' @ company_name @
          ''. When users ask about portfolio optimization, transfer to the Portfolio Manager. For risk questions, transfer to the Risk Analyst. You specialize in market research and investment analysis.'',
        spec_model = ''claude-3-5-sonnet-20241022''\<rparr>)]"

text \<open>The agent object made for one item of \<open>team_specs\<close>.\<close>

definition team_agent :: "string \<times> team_spec \<Rightarrow> agent" where
  "team_agent p =
     \<lparr>name = fst p, model = spec_model (snd p), instructions = spec_instructions (snd p),
      functions_of = []\<rparr>"

text \<open>The loop over \<open>team_specs\<close>: the registry and \<open>created_agents\<close> are threaded through.\<close>

fun create_missing :: "team_spec dict \<Rightarrow> agent dict \<times> string list \<Rightarrow> agent dict \<times> string list" where
  "create_missing [] acc = acc"
| "create_missing (p # specs) acc =
     (if \<not> dict_contains (fst p) (fst acc)
      then create_missing specs (dict_set (fst p) (team_agent p) (fst acc), snd acc @ [fst p])
      else create_missing specs acc)"

definition team_header :: "string \<Rightarrow> string" where
  "team_header company_name =
     check_mark @ '' **Swarm Finance Team for '' @ company_name @ ''**'' @ newline @ newline"

definition team_created :: "string list \<Rightarrow> string" where
  "team_created created_agents =
     ''**Created agents with transfer capabilities:** '' @ join '', '' created_agents
       @ newline @ newline
       @ cycle_arrows @ '' **Swarm Features Enabled:**'' @ newline
       @ bullet @ '' Automatic agent handoffs based on expertise'' @ newline
       @ bullet @ '' Shared conversation context'' @ newline
       @ bullet @ '' Intelligent routing between specialists'' @ newline @ newline
       @ light_bulb @ '' **Try multi-step queries** - agents will coordinate automatically!''"

definition team_already_exists :: "string \<Rightarrow> string" where
  "team_already_exists company_name = ''**Team already exists for '' @ company_name @ ''**''"

definition create_finance_team_handler :: "string dict \<Rightarrow> world \<Rightarrow> string \<times> world" where
  "create_finance_team_handler args w =
     (let company_name = dict_get args ''company_name'' ''Investment Firm'';
          acc = create_missing (team_specs company_name) (agents w, []);
          created_agents = snd acc;
          w1 = w\<lparr>agents := fst acc\<rparr>;
          w2 = (if created_agents \<noteq> []
                then print_stderr (Created_team created_agents)
                       (save_agents
                          ((setup_transfer_functions w1)\<lparr>current_agent := Some ''Risk_Analyst''\<rparr>))
                else w1)
      in (team_header company_name @
            (if created_agents \<noteq> [] then team_created created_agents
             else team_already_exists company_name),
          w2))"

section \<open>Example states\<close>

text \<open>
  A fresh process with no storage file, and the state after \<open>create_agent\<close> for
  \<open>A\<close> and then for \<open>B\<close>.
\<close>

definition fresh_world :: world where
  "fresh_world = initial_world Missing True"

definition args_A :: "string dict" where
  "args_A = [(''name'', ''A''), (''instructions'', ''first'')]"

definition args_B :: "string dict" where
  "args_B = [(''name'', ''B''), (''instructions'', ''second'')]"

definition world_A :: world where
  "world_A = snd (create_agent_handler args_A fresh_world)"

definition world_AB :: world where
  "world_AB = snd (create_agent_handler args_B world_A)"

definition agent_A :: agent where
  "agent_A = \<lparr>name = ''A'', model = default_model, instructions = ''first'',
              functions_of = [\<lparr>target_key = ''B'', target_name = ''B''\<rparr>]\<rparr>"

definition agent_B :: agent where
  "agent_B = \<lparr>name = ''B'', model = default_model, instructions = ''second'',
              functions_of = [\<lparr>target_key = ''A'', target_name = ''A''\<rparr>]\<rparr>"

text \<open>
  Three collaborators: one that raises, one that returns no message, one that hands
  over to \<open>B\<close>; and the state after a chat that ended on \<open>B\<close>.
\<close>

definition failing_run :: swarm_run where
  "failing_run a m c = Inl ''connection refused''"

definition silent_run :: swarm_run where
  "silent_run a m c =
     Inr \<lparr>resp_messages = [], resp_agent = a, resp_context_variables = [(''topic'', ''risk'')]\<rparr>"

definition run_to_B :: swarm_run where
  "run_to_B a m c =
     Inr \<lparr>resp_messages = m @ [[(''role'', ''assistant''), (''content'', ''done'')]],
          resp_agent = agent_B, resp_context_variables = c\<rparr>"

definition world_AB_on_B :: world where
  "world_AB_on_B = snd (chat_with_swarm_handler run_to_B [(''message'', ''hello'')] world_AB)"

text \<open>The snapshot that \<open>save_agents\<close> writes for the registry holding \<open>A\<close> and \<open>B\<close>.\<close>

definition snapshot_AB :: json where
  "snapshot_AB =
     JObj [(''A'', JObj [(''name'', JStr ''A''), (''model'', JStr default_model),
                       (''instructions'', JStr ''first'')]),
           (''B'', JObj [(''name'', JStr ''B''), (''model'', JStr default_model),
                       (''instructions'', JStr ''second'')])]"

text \<open>
  A storage file whose first record is complete and whose second record lacks
  \<open>model\<close> and \<open>instructions\<close>.
\<close>

definition half_good_file :: stored where
  "half_good_file =
     Doc (JObj [(''A'', JObj [(''name'', JStr ''A''), (''model'', JStr default_model),
                            (''instructions'', JStr ''first'')]),
                (''B'', JObj [(''name'', JStr ''B'')])])"

text \<open>The four roles of the finance team, in the order of \<open>team_specs\<close>.\<close>

definition team_roles :: "string list" where
  "team_roles = [''Risk_Analyst'', ''Portfolio_Manager'', ''Data_Analyst'', ''Research_Analyst'']"

section \<open>Dictionaries\<close>

lemma dict_set_keys_absent:
  "k \<notin> set (map fst d) \<Longrightarrow> dict_set k v d = d @ [(k, v)]"
  by (induction d) auto

lemma dict_set_keys_present:
  "k \<in> set (map fst d) \<Longrightarrow> map fst (dict_set k v d) = map fst d"
  by (induction d) auto

lemma transfer_functions_distinct:
  "distinct (map fst tf @ map fst reg) \<Longrightarrow>
   transfer_functions reg tf = tf @ map (\<lambda>p. (fst p, create_transfer (fst p) (snd p))) reg"
proof (induction reg arbitrary: tf)
  case Nil
  then show ?case by simp
next
  case (Cons p reg)
  from Cons.prems have absent: "fst p \<notin> set (map fst tf)" by auto
  from Cons.prems have "distinct (map fst (tf @ [(fst p, create_transfer (fst p) (snd p))]) @ map fst reg)"
    by auto
  from Cons.IH [OF this] absent show ?case
    by (simp add: dict_set_keys_absent)
qed

lemma filter_out_one:
  "k \<in> set xs \<Longrightarrow> distinct xs \<Longrightarrow> length (filter (\<lambda>t. t \<noteq> k) xs) = length xs - 1"
proof (induction xs)
  case Nil
  then show ?case by simp
next
  case (Cons x xs)
  show ?case
  proof (cases "x = k")
    case True
    with Cons.prems have "filter (\<lambda>t. t \<noteq> k) xs = xs"
      by (auto intro: filter_True)
    with True show ?thesis by simp
  next
    case False
    with Cons have "length (filter (\<lambda>t. t \<noteq> k) xs) = length xs - 1" and "xs \<noteq> []"
      by auto
    with False show ?thesis by (cases xs) auto
  qed
qed

lemma filter_names_keys:
  "\<forall>q \<in> set reg. name (snd q) = fst q \<Longrightarrow>
   map (\<lambda>q. name (snd q)) (filter (\<lambda>q. fst q \<noteq> k) reg) =
   filter (\<lambda>t. t \<noteq> k) (map (\<lambda>q. name (snd q)) reg)"
  by (induction reg) auto

lemma rebuild_keys: "map fst (rebuild reg) = map fst reg"
  by (simp add: rebuild_def attach_functions_def comp_def)

lemma rebuild_distinct:
  assumes "distinct (map fst reg)"
  shows "rebuild reg =
         map (\<lambda>p. (fst p, (snd p)\<lparr>functions_of :=
                map (\<lambda>q. create_transfer (fst q) (snd q)) (filter (\<lambda>q. fst q \<noteq> fst p) reg)\<rparr>)) reg"
proof -
  have "transfer_functions reg [] = map (\<lambda>p. (fst p, create_transfer (fst p) (snd p))) reg"
    using transfer_functions_distinct [of "[]" reg] assms by simp
  then show ?thesis
    by (simp add: rebuild_def attach_functions_def filter_map comp_def)
qed

section \<open>The example states, evaluated\<close>

lemma world_A_agents:
  "agents world_A = [(''A'', agent_A\<lparr>functions_of := []\<rparr>)]"
  by (simp add: world_A_def fresh_world_def initial_world_def args_A_def create_agent_handler_def
      dict_get_def dict_contains_def dict_keys_def setup_transfer_functions_def print_stderr_def
      rebuild_def attach_functions_def save_agents_def open_w_def json_dump_def agent_A_def
      Let_def)

lemma world_AB_agents:
  "agents world_AB = [(''A'', agent_A), (''B'', agent_B)]"
  by (simp add: world_AB_def world_A_agents args_B_def create_agent_handler_def
      dict_get_def dict_contains_def dict_keys_def setup_transfer_functions_def print_stderr_def
      rebuild_def attach_functions_def create_transfer_def save_agents_def open_w_def
      json_dump_def agent_A_def agent_B_def Let_def)

lemma world_A_session:
  "conversation_history world_A = [] \<and> current_agent world_A = Some ''A'' \<and>
   context_variables world_A = [] \<and> swarm_calls world_A = []"
  by (simp add: world_A_def fresh_world_def initial_world_def args_A_def create_agent_handler_def
      dict_get_def dict_contains_def dict_keys_def setup_transfer_functions_def print_stderr_def
      save_agents_def open_w_def json_dump_def Let_def)

lemma world_AB_session:
  "conversation_history world_AB = [] \<and> current_agent world_AB = Some ''A'' \<and>
   context_variables world_AB = [] \<and> swarm_calls world_AB = []"
  using world_A_session
  by (simp add: world_AB_def args_B_def create_agent_handler_def
      dict_get_def dict_contains_def dict_keys_def world_A_agents
      setup_transfer_functions_def print_stderr_def
      save_agents_def open_w_def json_dump_def Let_def)

lemma world_AB_on_B_state:
  "agents world_AB_on_B = [(''A'', agent_A), (''B'', agent_B)] \<and>
   current_agent world_AB_on_B = Some ''B'' \<and>
   swarm_calls world_AB_on_B = [(agent_A, [user_message ''hello''], [])] \<and>
   context_variables world_AB_on_B = []"
  using world_AB_session
  by (simp add: world_AB_on_B_def chat_with_swarm_handler_def dict_get_def world_AB_agents
      starting_agent_name_def starting_agent_def run_to_B_def print_stderr_def Let_def
      agent_B_def)

section \<open>Properties of the relation builder\<close>

text \<open>
  The handlers that insert into the registry run the rebuild on the registry they have
  extended: a successful \<open>create_agent\<close> leaves the rebuilt registry with the new agent
  at the end.
\<close>

lemma create_agent_rebuilds:
  assumes "dict_get args ''name'' [] = n" and "n \<noteq> []"
    and "dict_get args ''instructions'' [] = i" and "i \<noteq> []"
    and "\<not> dict_contains n (agents w)"
  shows "create_agent_handler args w =
           (created_swarm_agent n, snd (create_agent_handler args w)) \<and>
         agents (snd (create_agent_handler args w)) =
           rebuild (agents w @
             [(n, \<lparr>name = n, model = dict_get args ''model'' default_model, instructions = i,
                   functions_of = []\<rparr>)])"
proof -
  from assms(5) have "n \<notin> set (map fst (agents w))"
    by (simp add: dict_contains_def dict_keys_def)
  then show ?thesis
    using assms
    by (simp add: create_agent_handler_def Let_def dict_set_keys_absent
        setup_transfer_functions_def print_stderr_def save_agents_def open_w_def json_dump_def)
qed

text \<open>
  C1. After a rebuild the registry has the same keys in the same order, and every agent
  \<open>a\<close> stored under key \<open>k\<close> has as transfer targets exactly the other registered
  agents, in registry order, without itself: the targets' keys are the registry's keys
  without \<open>k\<close>, their names are the names of the records under those keys, and there
  are \<open>n - 1\<close> of them. Where every key equals its record's name, the target names
  are the registry's names without \<open>a\<close>'s own.
\<close>

theorem rebuild_transfer_targets:
  assumes "distinct (map fst (agents w))"
    and "(k, a) \<in> set (agents (setup_transfer_functions w))"
  shows "map fst (agents (setup_transfer_functions w)) = map fst (agents w) \<and>
         map target_key (functions_of a) = filter (\<lambda>t. t \<noteq> k) (map fst (agents w)) \<and>
         map target_name (functions_of a) =
           map (\<lambda>q. name (snd q)) (filter (\<lambda>q. fst q \<noteq> k) (agents w)) \<and>
         k \<notin> set (map target_key (functions_of a)) \<and>
         length (functions_of a) = length (agents w) - 1 \<and>
         ((\<forall>q \<in> set (agents w). name (snd q) = fst q) \<longrightarrow>
           name a = k \<and>
           map target_name (functions_of a) =
             filter (\<lambda>t. t \<noteq> name a) (map (\<lambda>q. name (snd q)) (agents w)))"
proof -
  let ?reg = "agents w"
  have ag: "agents (setup_transfer_functions w) = rebuild ?reg"
    by (simp add: setup_transfer_functions_def print_stderr_def)
  have c1: "map fst (agents (setup_transfer_functions w)) = map fst ?reg"
    by (simp add: ag rebuild_keys)
  from assms(2) obtain p where p: "p \<in> set ?reg" "k = fst p"
    and a: "a = (snd p)\<lparr>functions_of :=
                map (\<lambda>q. create_transfer (fst q) (snd q)) (filter (\<lambda>q. fst q \<noteq> fst p) ?reg)\<rparr>"
    unfolding ag rebuild_distinct [OF assms(1)] by auto
  have keys: "map target_key (functions_of a) = filter (\<lambda>t. t \<noteq> k) (map fst ?reg)"
    by (simp add: a p(2) create_transfer_def comp_def filter_map)
  have names: "map target_name (functions_of a) =
           map (\<lambda>q. name (snd q)) (filter (\<lambda>q. fst q \<noteq> k) ?reg)"
    by (simp add: a p(2) create_transfer_def comp_def)
  have noself: "k \<notin> set (map target_key (functions_of a))"
    unfolding keys by simp
  have "k \<in> set (map fst ?reg)" using p by auto
  then have "length (filter (\<lambda>t. t \<noteq> k) (map fst ?reg)) = length (map fst ?reg) - 1"
    using assms(1) by (rule filter_out_one)
  then have len: "length (functions_of a) = length ?reg - 1"
    using keys by (metis length_map)
  have inv: "name a = k \<and>
           map target_name (functions_of a) =
             filter (\<lambda>t. t \<noteq> name a) (map (\<lambda>q. name (snd q)) ?reg)"
    if inv: "\<forall>q \<in> set ?reg. name (snd q) = fst q"
  proof -
    have na: "name a = k" using inv p a by simp
    have "map (\<lambda>q. name (snd q)) (filter (\<lambda>q. fst q \<noteq> k) ?reg) =
          filter (\<lambda>t. t \<noteq> k) (map (\<lambda>q. name (snd q)) ?reg)"
      using inv by (rule filter_names_keys)
    with names na show ?thesis by simp
  qed
  from c1 keys names noself len inv show ?thesis by blast
qed

theorem rebuild_transfer_targets_witness:
  "distinct (map fst (agents world_AB)) \<and>
   (''A'', agent_A) \<in> set (agents (setup_transfer_functions world_AB)) \<and>
   map fst (agents (setup_transfer_functions world_AB)) = [''A'', ''B''] \<and>
   map target_key (functions_of agent_A) = [''B''] \<and>
   map target_name (functions_of agent_A) = [''B''] \<and>
   ''A'' \<notin> set (map target_key (functions_of agent_A)) \<and>
   length (functions_of agent_A) = 1"
proof -
  have d: "distinct (map fst (agents world_AB))"
    by (simp add: world_AB_agents)
  have m: "(''A'', agent_A) \<in> set (agents (setup_transfer_functions world_AB))"
    by (simp add: setup_transfer_functions_def print_stderr_def world_AB_agents rebuild_def
        attach_functions_def create_transfer_def agent_A_def agent_B_def)
  from rebuild_transfer_targets [OF d m] d m show ?thesis
    by (simp add: world_AB_agents agent_A_def agent_B_def)
qed

section \<open>Dictionary merge\<close>

lemma map_of_dict_set: "map_of (dict_set k v d) = (map_of d)(k \<mapsto> v)"
  by (induction d) (auto simp: fun_eq_iff)

lemma map_add_upd_left_absent:
  "m k = None \<Longrightarrow> m'(k \<mapsto> v) ++ m = (m' ++ m)(k \<mapsto> v)"
  by (auto simp: map_add_def fun_eq_iff split: option.splits)

lemma map_of_dict_update:
  "distinct (map fst e) \<Longrightarrow> map_of (dict_update d e) = map_of d ++ map_of e"
proof (induction e arbitrary: d)
  case Nil
  then show ?case by simp
next
  case (Cons p e)
  from Cons.prems have absent: "map_of e (fst p) = None"
    by (simp add: map_of_eq_None_iff)
  from Cons.prems have de: "distinct (map fst e)" by simp
  have "map_of (dict_update d (p # e)) = (map_of d)(fst p \<mapsto> snd p) ++ map_of e"
    by (simp only: dict_update.simps Cons.IH [OF de] map_of_dict_set)
  also have "\<dots> = (map_of d ++ map_of e)(fst p \<mapsto> snd p)"
    using absent by (rule map_add_upd_left_absent)
  also have "\<dots> = map_of d ++ map_of (p # e)"
    by (cases p) simp
  finally show ?case .
qed

section \<open>Failing requests\<close>

lemma failure_texts:
  "is_failure_text name_and_instructions_required"
  "is_failure_text (agent_already_exists n)"
  "is_failure_text message_required"
  "is_failure_text no_agents_available"
  "is_failure_text (swarm_error e)"
  by (simp_all add: is_failure_text_def name_and_instructions_required_def
      agent_already_exists_def message_required_def no_agents_available_def swarm_error_def
      cross_mark_def)

text \<open>
  The body of \<open>chat_with_swarm_handler\<close> once the message and the registry have passed
  the two checks: \<open>w2\<close> is the state in which \<open>swarm_client.run\<close> is called.
\<close>

lemma chat_call:
  assumes "dict_get args ''message'' [] = msg" and "msg \<noteq> []" and "agents w \<noteq> []"
    and "start = starting_agent (starting_agent_name args w) (agents w) (hd (agents w))"
    and "w2 = w\<lparr>conversation_history := conversation_history w @ [user_message msg],
                swarm_calls := swarm_calls w @
                  [(snd start, conversation_history w @ [user_message msg], context_variables w)]\<rparr>"
  shows "chat_with_swarm_handler run args w =
     (case run (snd start) (conversation_history w @ [user_message msg]) (context_variables w) of
        Inl e \<Rightarrow> (swarm_error e, print_stderr (Swarm_error e) w2)
      | Inr r \<Rightarrow>
          (swarm_reply (name (resp_agent r))
             (dict_get (if resp_messages r \<noteq> [] then last (resp_messages r) else [])
                ''content'' ''No response'')
             (if name (resp_agent r) \<noteq> fst start
              then agent_transfer (fst start) (name (resp_agent r)) else []),
           print_stderr (Swarm_completed (fst start) (name (resp_agent r)))
             (w2\<lparr>conversation_history := resp_messages r,
                 current_agent := Some (name (resp_agent r)),
                 context_variables :=
                   dict_update (context_variables w) (resp_context_variables r)\<rparr>)))"
proof -
  from assms(3) obtain first rest where reg: "agents w = first # rest"
    by (cases "agents w") auto
  show ?thesis
    using assms(1,2,4,5) reg
    by (simp add: chat_with_swarm_handler_def Let_def split: sum.splits)
qed

text \<open>
  C7, as the code has it. \<open>create_agent\<close> checks for an empty name or empty
  instructions first and answers with the validation failure; a name that is already a
  key of the registry, given with non-empty instructions, gets the duplicate-name
  failure. Both replies are failure texts, and in both cases the whole process state
  (registry, session, storage file, log) is the one before the call.
\<close>

theorem create_agent_rejects:
  "(dict_get args ''name'' [] = [] \<or> dict_get args ''instructions'' [] = [] \<longrightarrow>
      create_agent_handler args w = (name_and_instructions_required, w)) \<and>
   (dict_get args ''name'' [] \<noteq> [] \<and> dict_get args ''instructions'' [] \<noteq> [] \<and>
    dict_contains (dict_get args ''name'' []) (agents w) \<longrightarrow>
      create_agent_handler args w = (agent_already_exists (dict_get args ''name'' []), w)) \<and>
   is_failure_text name_and_instructions_required \<and>
   is_failure_text (agent_already_exists (dict_get args ''name'' []))"
  by (simp add: create_agent_handler_def Let_def failure_texts)

theorem create_agent_rejects_witness:
  "create_agent_handler args_A world_A = (agent_already_exists ''A'', world_A) \<and>
   create_agent_handler [(''name'', ''C'')] world_A = (name_and_instructions_required, world_A)"
  using create_agent_rejects [of args_A world_A]
    create_agent_rejects [of "[(''name'', ''C'')]" world_A]
  by (simp add: args_A_def dict_get_def dict_contains_def dict_keys_def world_A_agents)

text \<open>
  C7 as stated fails where the name is already registered and the instructions are
  empty: the reply is the validation failure, not the duplicate-name failure.
\<close>

theorem create_agent_duplicate_counterexample:
  "dict_contains ''A'' (agents world_A) \<and>
   fst (create_agent_handler [(''name'', ''A''), (''instructions'', [])] world_A)
     = name_and_instructions_required \<and>
   name_and_instructions_required \<noteq> agent_already_exists ''A''"
  by (simp add: create_agent_handler_def dict_get_def dict_contains_def dict_keys_def
      world_A_agents name_and_instructions_required_def agent_already_exists_def)

text \<open>
  C8. With an empty (or missing) message \<open>chat_with_swarm\<close> answers with a failure text
  and returns the state it was given: transcript, active agent and context values are
  unchanged, and no call to the collaborator is recorded.
\<close>

theorem chat_empty_message:
  assumes "dict_get args ''message'' [] = []"
    and "w' = snd (chat_with_swarm_handler run args w)"
  shows "fst (chat_with_swarm_handler run args w) = message_required \<and>
         is_failure_text message_required \<and>
         w' = w \<and>
         conversation_history w' = conversation_history w \<and>
         current_agent w' = current_agent w \<and>
         context_variables w' = context_variables w \<and>
         swarm_calls w' = swarm_calls w"
  using assms by (simp add: chat_with_swarm_handler_def Let_def failure_texts)

theorem chat_empty_message_witness:
  "dict_get [(''message'', [])] ''message'' [] = [] \<and>
   chat_with_swarm_handler failing_run [(''message'', [])] world_AB = (message_required, world_AB)"
proof -
  have 1: "dict_get [(''message'', [])] ''message'' [] = []" by (simp add: dict_get_def)
  from chat_empty_message [where run = failing_run and w = world_AB, OF 1 refl] 1
  show ?thesis by (simp add: prod_eq_iff)
qed

text \<open>
  C2 as stated fails: the user's message is appended to the transcript before the
  collaborator is called, and it stays there when the call raises.
\<close>

theorem chat_failure_keeps_user_message_counterexample:
  "agents world_AB \<noteq> [] \<and>
   failing_run agent_A (conversation_history world_AB @ [user_message ''hi''])
     (context_variables world_AB) = Inl ''connection refused'' \<and>
   fst (chat_with_swarm_handler failing_run [(''message'', ''hi'')] world_AB)
     = swarm_error ''connection refused'' \<and>
   conversation_history world_AB = [] \<and>
   conversation_history (snd (chat_with_swarm_handler failing_run [(''message'', ''hi'')] world_AB))
     = [user_message ''hi'']"
  using world_AB_session
  by (simp add: chat_with_swarm_handler_def dict_get_def world_AB_agents failing_run_def
      print_stderr_def Let_def)

text \<open>
  C2, as the code has it. On a non-empty registry and a non-empty message, when the
  collaborator call raises, the reply is the failure text made of the exception's
  message; the active agent, the context values, the registry and the storage file are
  what they were before the call, and the transcript is the previous transcript with the
  user's message appended.
\<close>

theorem chat_collaborator_failure:
  assumes "dict_get args ''message'' [] = msg" and "msg \<noteq> []" and "agents w \<noteq> []"
    and "start = starting_agent (starting_agent_name args w) (agents w) (hd (agents w))"
    and "run (snd start) (conversation_history w @ [user_message msg]) (context_variables w) = Inl e"
    and "w' = snd (chat_with_swarm_handler run args w)"
  shows "fst (chat_with_swarm_handler run args w) = swarm_error e \<and>
         is_failure_text (swarm_error e) \<and>
         conversation_history w' = conversation_history w @ [user_message msg] \<and>
         current_agent w' = current_agent w \<and>
         context_variables w' = context_variables w \<and>
         agents w' = agents w \<and>
         agents_file w' = agents_file w"
  using assms(5,6) chat_call [OF assms(1-4) refl, of run]
  by (simp add: print_stderr_def failure_texts)

theorem chat_collaborator_failure_witness:
  "conversation_history (snd (chat_with_swarm_handler failing_run [(''message'', ''hi'')] world_AB))
     = [user_message ''hi''] \<and>
   current_agent (snd (chat_with_swarm_handler failing_run [(''message'', ''hi'')] world_AB))
     = Some ''A'' \<and>
   context_variables (snd (chat_with_swarm_handler failing_run [(''message'', ''hi'')] world_AB))
     = [] \<and>
   fst (chat_with_swarm_handler failing_run [(''message'', ''hi'')] world_AB)
     = swarm_error ''connection refused''"
proof -
  have 1: "dict_get [(''message'', ''hi'')] ''message'' [] = ''hi''" by (simp add: dict_get_def)
  have 2: "''hi'' \<noteq> []" by simp
  have 3: "agents world_AB \<noteq> []" by (simp add: world_AB_agents)
  have 5: "failing_run
             (snd (starting_agent (starting_agent_name [(''message'', ''hi'')] world_AB)
                (agents world_AB) (hd (agents world_AB))))
             (conversation_history world_AB @ [user_message ''hi''])
             (context_variables world_AB) = Inl ''connection refused''"
    by (simp add: failing_run_def)
  from chat_collaborator_failure [where run = failing_run, OF 1 2 3 refl 5 refl] world_AB_session
  show ?thesis by simp
qed

text \<open>
  C10. When the collaborator returns a response with no message, the handler commits
  the empty transcript, the returned agent as active agent and the context values
  merged with the returned ones (returned values override), and the reply carries the
  fallback content \<open>No response\<close>.
\<close>

theorem chat_empty_response:
  assumes "dict_get args ''message'' [] = msg" and "msg \<noteq> []" and "agents w \<noteq> []"
    and "start = starting_agent (starting_agent_name args w) (agents w) (hd (agents w))"
    and "run (snd start) (conversation_history w @ [user_message msg]) (context_variables w) = Inr r"
    and "resp_messages r = []"
    and "w' = snd (chat_with_swarm_handler run args w)"
  shows "conversation_history w' = [] \<and>
         current_agent w' = Some (name (resp_agent r)) \<and>
         context_variables w' = dict_update (context_variables w) (resp_context_variables r) \<and>
         (distinct (map fst (resp_context_variables r)) \<longrightarrow>
            map_of (context_variables w') =
              map_of (context_variables w) ++ map_of (resp_context_variables r)) \<and>
         fst (chat_with_swarm_handler run args w) =
           swarm_reply (name (resp_agent r)) ''No response''
             (if name (resp_agent r) \<noteq> fst start
              then agent_transfer (fst start) (name (resp_agent r)) else [])"
  using assms(5,6,7) chat_call [OF assms(1-4) refl, of run]
  by (simp add: print_stderr_def dict_get_def map_of_dict_update)

theorem chat_empty_response_witness:
  "conversation_history (snd (chat_with_swarm_handler silent_run [(''message'', ''hi'')] world_AB_on_B))
     = [] \<and>
   current_agent (snd (chat_with_swarm_handler silent_run [(''message'', ''hi'')] world_AB_on_B))
     = Some ''B'' \<and>
   context_variables (snd (chat_with_swarm_handler silent_run [(''message'', ''hi'')] world_AB_on_B))
     = [(''topic'', ''risk'')] \<and>
   fst (chat_with_swarm_handler silent_run [(''message'', ''hi'')] world_AB_on_B)
     = swarm_reply ''B'' ''No response'' []"
proof -
  let ?args = "[(''message'', ''hi'')]"
  let ?r = "\<lparr>resp_messages = [], resp_agent = agent_B,
             resp_context_variables = [(''topic'', ''risk'')]\<rparr>"
  have 1: "dict_get ?args ''message'' [] = ''hi''" by (simp add: dict_get_def)
  have 2: "''hi'' \<noteq> []" by simp
  have 3: "agents world_AB_on_B \<noteq> []" by (simp add: world_AB_on_B_state)
  have st: "starting_agent (starting_agent_name ?args world_AB_on_B)
                (agents world_AB_on_B) (hd (agents world_AB_on_B)) = (''B'', agent_B)"
    by (simp add: starting_agent_name_def starting_agent_def world_AB_on_B_state)
  have 5: "silent_run
             (snd (starting_agent (starting_agent_name ?args world_AB_on_B)
                (agents world_AB_on_B) (hd (agents world_AB_on_B))))
             (conversation_history world_AB_on_B @ [user_message ''hi''])
             (context_variables world_AB_on_B) = Inr ?r"
    by (simp add: st silent_run_def)
  have 6: "resp_messages ?r = []" by simp
  from chat_empty_response [where run = silent_run, OF 1 2 3 refl 5 6 refl] st world_AB_on_B_state
  show ?thesis by (simp add: agent_B_def)
qed

section \<open>The starting agent\<close>

text \<open>
  C3 as stated fails: with the active agent \<open>B\<close> registered and an explicit
  \<open>agent_name\<close> that is not in the registry, the collaborator is called with the first
  registered agent \<open>A\<close>, not with the active agent.
\<close>

theorem chat_unknown_agent_name_counterexample:
  "current_agent world_AB_on_B = Some ''B'' \<and>
   map_of (agents world_AB_on_B) ''B'' = Some agent_B \<and>
   map_of (agents world_AB_on_B) ''Z'' = None \<and>
   swarm_calls (snd (chat_with_swarm_handler failing_run
       [(''message'', ''hi''), (''agent_name'', ''Z'')] world_AB_on_B)) =
     swarm_calls world_AB_on_B @
       [(agent_A, conversation_history world_AB_on_B @ [user_message ''hi''], [])] \<and>
   agent_A \<noteq> agent_B"
  using world_AB_on_B_state
  by (simp add: chat_with_swarm_handler_def dict_get_def starting_agent_name_def
      starting_agent_def failing_run_def print_stderr_def Let_def agent_A_def agent_B_def)

text \<open>
  C3, as the code has it. On a non-empty registry and a non-empty message the
  collaborator is called once, with the agent \<open>start\<close> chosen as follows: an explicitly
  supplied \<open>agent_name\<close> that is non-empty and a key of the registry selects that agent;
  when no \<open>agent_name\<close> is supplied, the active agent is selected if it is set and a key
  of the registry; in every other case, also when an explicit name is supplied that is
  not in the registry, the first registered agent is selected.
\<close>

theorem chat_starting_agent:
  assumes "dict_get args ''message'' [] = msg" and "msg \<noteq> []" and "agents w \<noteq> []"
    and "start = starting_agent (starting_agent_name args w) (agents w) (hd (agents w))"
  shows "swarm_calls (snd (chat_with_swarm_handler run args w)) =
           swarm_calls w @
             [(snd start, conversation_history w @ [user_message msg], context_variables w)] \<and>
         (map_of args ''agent_name'' = Some n \<and> n \<noteq> [] \<and> map_of (agents w) n = Some a
            \<longrightarrow> start = (n, a)) \<and>
         (map_of args ''agent_name'' = None \<and> current_agent w = Some n \<and> n \<noteq> [] \<and>
          map_of (agents w) n = Some a
            \<longrightarrow> start = (n, a)) \<and>
         (map_of args ''agent_name'' = Some n \<and> (n = [] \<or> map_of (agents w) n = None)
            \<longrightarrow> start = hd (agents w)) \<and>
         (map_of args ''agent_name'' = None \<and>
          (current_agent w = None \<or> current_agent w = Some [] \<or>
           (current_agent w = Some n \<and> map_of (agents w) n = None))
            \<longrightarrow> start = hd (agents w))"
proof -
  have calls: "swarm_calls (snd (chat_with_swarm_handler run args w)) =
           swarm_calls w @
             [(snd start, conversation_history w @ [user_message msg], context_variables w)]"
    using chat_call [OF assms refl, of run]
    by (simp add: print_stderr_def split: sum.splits)
  show ?thesis
    using calls assms(4)
    by (auto simp: starting_agent_def starting_agent_name_def)
qed

theorem chat_starting_agent_witness:
  "swarm_calls (snd (chat_with_swarm_handler failing_run
       [(''message'', ''hi''), (''agent_name'', ''Z'')] world_AB_on_B)) =
     swarm_calls world_AB_on_B @ [(agent_A, [user_message ''hello'',
        [(''role'', ''assistant''), (''content'', ''done'')], user_message ''hi''], [])] \<and>
   starting_agent (starting_agent_name [(''message'', ''hi''), (''agent_name'', ''A'')] world_AB_on_B)
     (agents world_AB_on_B) (hd (agents world_AB_on_B)) = (''A'', agent_A) \<and>
   starting_agent (starting_agent_name [(''message'', ''hi'')] world_AB_on_B)
     (agents world_AB_on_B) (hd (agents world_AB_on_B)) = (''B'', agent_B)"
proof -
  let ?w = world_AB_on_B
  have 3: "agents ?w \<noteq> []" by (simp add: world_AB_on_B_state)
  have h: "conversation_history ?w =
      [user_message ''hello'', [(''role'', ''assistant''), (''content'', ''done'')]]"
    using world_AB_session
    by (simp add: world_AB_on_B_def chat_with_swarm_handler_def dict_get_def world_AB_agents
      starting_agent_name_def starting_agent_def run_to_B_def print_stderr_def Let_def)
  have Z: "dict_get [(''message'', ''hi''), (''agent_name'', ''Z'')] ''message'' [] = ''hi''"
    by (simp add: dict_get_def)
  have A: "dict_get [(''message'', ''hi''), (''agent_name'', ''A'')] ''message'' [] = ''hi''"
    by (simp add: dict_get_def)
  have N: "dict_get [(''message'', ''hi'')] ''message'' [] = ''hi''"
    by (simp add: dict_get_def)
  have 2: "''hi'' \<noteq> []" by simp
  from chat_starting_agent [where run = failing_run and n = "''Z''", OF Z 2 3 refl]
    chat_starting_agent [where run = failing_run and n = "''A''" and a = agent_A, OF A 2 3 refl]
    chat_starting_agent [where run = failing_run and n = "''B''" and a = agent_B, OF N 2 3 refl]
    world_AB_on_B_state h
  show ?thesis by simp
qed

section \<open>Writing the storage file\<close>

lemma agent_data_distinct:
  "distinct (map fst d @ map fst reg) \<Longrightarrow>
   agent_data reg d = d @ map (\<lambda>p. (fst p, agent_record (snd p))) reg"
proof (induction reg arbitrary: d)
  case Nil
  then show ?case by simp
next
  case (Cons p reg)
  from Cons.prems have absent: "fst p \<notin> set (map fst d)" by auto
  from Cons.prems have "distinct (map fst (d @ [(fst p, agent_record (snd p))]) @ map fst reg)"
    by auto
  from Cons.IH [OF this] absent show ?case
    by (simp add: dict_set_keys_absent)
qed

lemma world_AB_file:
  "agents_file world_AB = Doc snapshot_AB \<and> file_writable world_AB"
  by (simp add: world_AB_def world_A_agents args_B_def create_agent_handler_def
      dict_get_def dict_contains_def dict_keys_def setup_transfer_functions_def print_stderr_def
      rebuild_def attach_functions_def create_transfer_def save_agents_def open_w_def
      json_dump_def agent_A_def agent_B_def Let_def snapshot_AB_def agent_record_def
      world_A_def fresh_world_def initial_world_def args_A_def)




section \<open>Reading the storage file\<close>

lemma agent_of_json_record:
  "agent_of_json (agent_record a) = Inr (a\<lparr>functions_of := []\<rparr>)"
  by (simp add: agent_of_json_def agent_record_def subscript_def ClaudeAgent_def)

lemma load_items_good:
  assumes "distinct (map fst (agents w) @ map fst good)"
    and "map (\<lambda>p. agent_of_json (snd p)) good = map Inr as"
  shows "load_items (good @ rest) w =
         load_items rest (w\<lparr>agents := agents w @ zip (map fst good) as\<rparr>)"
  using assms
proof (induction good arbitrary: w as)
  case Nil
  then show ?case by simp
next
  case (Cons p good)
  from Cons.prems(2) obtain a as' where as: "as = a # as'"
    and a: "agent_of_json (snd p) = Inr a"
    and rest: "map (\<lambda>p. agent_of_json (snd p)) good = map Inr as'"
    by (cases as) auto
  let ?w = "w\<lparr>agents := dict_set (fst p) a (agents w)\<rparr>"
  from Cons.prems(1) have absent: "fst p \<notin> set (map fst (agents w))" by auto
  then have ags: "agents ?w = agents w @ [(fst p, a)]"
    by (simp add: dict_set_keys_absent)
  from Cons.prems(1) have "distinct (map fst (agents ?w) @ map fst good)"
    by (auto simp: ags)
  from Cons.IH [OF this rest] show ?case
    by (simp add: a as ags)
qed

lemma load_items_records:
  assumes "distinct (map fst (agents w) @ map fst reg)"
  shows "load_items (map (\<lambda>p. (fst p, agent_record (snd p))) reg) w =
         (None, w\<lparr>agents := agents w @ map (\<lambda>p. (fst p, (snd p)\<lparr>functions_of := []\<rparr>)) reg\<rparr>)"
proof -
  let ?good = "map (\<lambda>p. (fst p, agent_record (snd p))) reg"
  let ?as = "map (\<lambda>p. (snd p)\<lparr>functions_of := []\<rparr>) reg"
  have d: "distinct (map fst (agents w) @ map fst ?good)"
    using assms by (simp add: comp_def)
  have m: "map (\<lambda>p. agent_of_json (snd p)) ?good = map Inr ?as"
    by (simp add: agent_of_json_record comp_def)
  have z: "zip (map fst ?good) ?as = map (\<lambda>p. (fst p, (snd p)\<lparr>functions_of := []\<rparr>)) reg"
    by (induction reg) auto
  from load_items_good [OF d m, of "[]"] z show ?thesis by simp
qed

lemma rebuild_without_functions:
  assumes "distinct (map fst reg)"
  shows "rebuild (map (\<lambda>p. (fst p, (snd p)\<lparr>functions_of := []\<rparr>)) reg) = rebuild reg"
proof -
  let ?strip = "\<lambda>p::string \<times> agent. (fst p, (snd p)\<lparr>functions_of := []\<rparr>)"
  have d: "distinct (map fst (map ?strip reg))"
    using assms by (simp add: comp_def)
  have f: "map (\<lambda>q. create_transfer (fst q) (snd q)) (filter (\<lambda>q. fst q \<noteq> k) (map ?strip reg)) =
           map (\<lambda>q. create_transfer (fst q) (snd q)) (filter (\<lambda>q. fst q \<noteq> k) reg)" for k
    by (induction reg) (auto simp: create_transfer_def)
  show ?thesis
    unfolding rebuild_distinct [OF d] rebuild_distinct [OF assms]
    by (simp add: f comp_def)
qed

lemma rebuild_fields:
  "map (\<lambda>p. (fst p, name (snd p), model (snd p), instructions (snd p))) (rebuild reg) =
   map (\<lambda>p. (fst p, name (snd p), model (snd p), instructions (snd p))) reg"
  by (simp add: rebuild_def attach_functions_def comp_def)

text \<open>
  C5. Saving a registry (a dictionary: distinct keys) to a writable storage file and
  loading that file in a fresh process gives a registry with the same keys in the same
  order and, under every key, the same name, model and instructions; hence the same set
  of triples. The file holds only these three fields of every agent, whatever the
  agents' transfer functions are, and the loaded agents get their transfer functions
  from the rebuild that \<open>load_agents\<close> runs.
\<close>

theorem save_load_roundtrip:
  assumes "distinct (map fst (agents w))" and "file_writable w"
    and "w' = load_agents (initial_world (agents_file (save_agents w)) wr)"
  shows "agents w' = rebuild (agents w) \<and>
         map (\<lambda>p. (fst p, name (snd p), model (snd p), instructions (snd p))) (agents w') =
           map (\<lambda>p. (fst p, name (snd p), model (snd p), instructions (snd p))) (agents w) \<and>
         (\<lambda>p. (name (snd p), model (snd p), instructions (snd p))) ` set (agents w') =
           (\<lambda>p. (name (snd p), model (snd p), instructions (snd p))) ` set (agents w) \<and>
         agents_file (save_agents w) =
           Doc (JObj (map (\<lambda>p. (fst p, agent_record (snd p))) (agents w))) \<and>
         agents_file (save_agents w) =
           agents_file (save_agents
             (w\<lparr>agents := map (\<lambda>p. (fst p, (snd p)\<lparr>functions_of := []\<rparr>)) (agents w)\<rparr>))"
proof -
  let ?reg = "agents w"
  let ?strip = "\<lambda>p::string \<times> agent. (fst p, (snd p)\<lparr>functions_of := []\<rparr>)"
  let ?fields = "\<lambda>p::string \<times> agent. (fst p, name (snd p), model (snd p), instructions (snd p))"
  have data: "agent_data ?reg [] = map (\<lambda>p. (fst p, agent_record (snd p))) ?reg"
    using agent_data_distinct [of "[]" ?reg] assms(1) by simp
  have stored_doc: "agents_file (save_agents w) = Doc (JObj (map (\<lambda>p. (fst p, agent_record (snd p))) ?reg))"
    using assms(2) by (simp add: save_agents_def open_w_def json_dump_def print_stderr_def data)
  have ds: "distinct (map fst (map ?strip ?reg))"
    using assms(1) by (simp add: comp_def)
  have data': "agent_data (map ?strip ?reg) [] = map (\<lambda>p. (fst p, agent_record (snd p))) ?reg"
    using agent_data_distinct [of "[]" "map ?strip ?reg"] ds
    by (simp add: comp_def agent_record_def)
  have stored_doc': "agents_file (save_agents (w\<lparr>agents := map ?strip ?reg\<rparr>)) =
               Doc (JObj (map (\<lambda>p. (fst p, agent_record (snd p))) ?reg))"
    using assms(2) by (simp add: save_agents_def open_w_def json_dump_def print_stderr_def data')
  let ?w0 = "initial_world (agents_file (save_agents w)) wr"
  have d0: "distinct (map fst (agents ?w0) @ map fst ?reg)"
    using assms(1) by (simp add: initial_world_def)
  have "load_items (map (\<lambda>p. (fst p, agent_record (snd p))) ?reg) ?w0 =
        (None, ?w0\<lparr>agents := map ?strip ?reg\<rparr>)"
    using load_items_records [OF d0] by (simp add: initial_world_def)
  then have "agents w' = rebuild (map ?strip ?reg)"
    unfolding assms(3) load_agents_def
    by (simp add: initial_world_def stored_doc setup_transfer_functions_def print_stderr_def
        set_first_current_def Let_def split: list.splits)
  then have ag: "agents w' = rebuild ?reg"
    by (simp add: rebuild_without_functions [OF assms(1)])
  have fields: "map ?fields (agents w') = map ?fields ?reg"
    unfolding ag by (rule rebuild_fields)
  have "(\<lambda>p. (name (snd p), model (snd p), instructions (snd p))) ` set (agents w') =
        set (map snd (map ?fields (agents w')))"
    by (simp add: image_comp comp_def)
  also have "\<dots> = set (map snd (map ?fields ?reg))"
    by (simp only: fields)
  also have "\<dots> = (\<lambda>p. (name (snd p), model (snd p), instructions (snd p))) ` set ?reg"
    by (simp add: image_comp comp_def)
  finally show ?thesis
    using ag fields stored_doc stored_doc' by simp
qed

theorem save_load_roundtrip_witness:
  "distinct (map fst (agents world_AB)) \<and> file_writable world_AB \<and>
   agents (load_agents (initial_world (agents_file (save_agents world_AB)) True)) =
     [(''A'', agent_A), (''B'', agent_B)] \<and>
   agents_file (save_agents world_AB) = Doc snapshot_AB"
proof -
  have d: "distinct (map fst (agents world_AB))" by (simp add: world_AB_agents)
  have wr: "file_writable world_AB" by (simp add: world_AB_file)
  have rb: "rebuild (agents world_AB) = [(''A'', agent_A), (''B'', agent_B)]"
    by (simp add: world_AB_agents rebuild_def attach_functions_def create_transfer_def
        agent_A_def agent_B_def)
  note t = save_load_roundtrip [OF d wr refl, of True]
  from t have ag: "agents (load_agents (initial_world (agents_file (save_agents world_AB)) True)) =
      rebuild (agents world_AB)"
    by (rule conjunct1)
  from t have doc: "agents_file (save_agents world_AB) =
      Doc (JObj (map (\<lambda>p. (fst p, agent_record (snd p))) (agents world_AB)))"
    by blast
  have snap: "map (\<lambda>p. (fst p, agent_record (snd p))) (agents world_AB) =
      [(''A'', JObj [(''name'', JStr ''A''), (''model'', JStr default_model),
                       (''instructions'', JStr ''first'')]),
       (''B'', JObj [(''name'', JStr ''B''), (''model'', JStr default_model),
                       (''instructions'', JStr ''second'')])]"
    by (simp add: world_AB_agents agent_record_def agent_A_def agent_B_def)
  from d wr ag rb doc snap show ?thesis
    by (simp add: snapshot_AB_def)
qed

text \<open>
  C9 as stated fails: when a later record of the stored object is malformed, the
  records before it have already been put into the registry and stay there (without
  transfer functions and without an active agent).
\<close>

theorem load_agents_partial_counterexample:
  "agents (load_agents (initial_world half_good_file True)) =
     [(''A'', \<lparr>name = ''A'', model = default_model, instructions = ''first'',
              functions_of = []\<rparr>)] \<and>
   stderr (load_agents (initial_world half_good_file True)) = [Load_error (KeyError ''model'')] \<and>
   current_agent (load_agents (initial_world half_good_file True)) = None"
  by (simp add: load_agents_def half_good_file_def initial_world_def agent_of_json_def
      subscript_def ClaudeAgent_def print_stderr_def)

text \<open>
  C9, as the code has it. \<open>load_agents\<close> never raises. In a fresh process, a missing
  file leaves the registry empty and prints the count \<open>0\<close>; content that \<open>json.load\<close>
  rejects, or that is not a JSON object, leaves the registry empty and prints the
  error. When the stored object has a malformed record, the error is printed, the
  records stored before the first malformed one are in the registry (none when the
  first record is the malformed one) with no transfer functions and no active agent.
\<close>

theorem load_agents_faults:
  "load_agents (initial_world Missing wr) = (initial_world Missing wr)\<lparr>stderr := [Loaded 0]\<rparr> \<and>
   load_agents (initial_world Unparseable wr) =
     (initial_world Unparseable wr)\<lparr>stderr := [Load_error JSONDecodeError]\<rparr> \<and>
   ((\<forall>items. j \<noteq> JObj items) \<longrightarrow>
      load_agents (initial_world (Doc j) wr) =
        (initial_world (Doc j) wr)\<lparr>stderr := [Load_error AttributeError]\<rparr>) \<and>
   (distinct (map fst good) \<and> map (\<lambda>p. agent_of_json (snd p)) good = map Inr as \<and>
    agent_of_json (snd bad) = Inl e \<longrightarrow>
      load_agents (initial_world (Doc (JObj (good @ bad # rest))) wr) =
        (initial_world (Doc (JObj (good @ bad # rest))) wr)
          \<lparr>agents := zip (map fst good) as, stderr := [Load_error e]\<rparr>)"
proof -
  have 1: "load_agents (initial_world Missing wr) = (initial_world Missing wr)\<lparr>stderr := [Loaded 0]\<rparr>"
    by (simp add: load_agents_def initial_world_def print_stderr_def)
  have 2: "load_agents (initial_world Unparseable wr) =
     (initial_world Unparseable wr)\<lparr>stderr := [Load_error JSONDecodeError]\<rparr>"
    by (simp add: load_agents_def initial_world_def print_stderr_def)
  have 3: "load_agents (initial_world (Doc j) wr) =
        (initial_world (Doc j) wr)\<lparr>stderr := [Load_error AttributeError]\<rparr>"
    if "\<forall>items. j \<noteq> JObj items"
    using that by (cases j) (simp_all add: load_agents_def initial_world_def print_stderr_def)
  have 4: "load_agents (initial_world (Doc (JObj (good @ bad # rest))) wr) =
        (initial_world (Doc (JObj (good @ bad # rest))) wr)
          \<lparr>agents := zip (map fst good) as, stderr := [Load_error e]\<rparr>"
    if d: "distinct (map fst good)"
      and m: "map (\<lambda>p. agent_of_json (snd p)) good = map Inr as"
      and b: "agent_of_json (snd bad) = Inl e"
  proof -
    let ?w0 = "initial_world (Doc (JObj (good @ bad # rest))) wr"
    have d0: "distinct (map fst (agents ?w0) @ map fst good)"
      using d by (simp add: initial_world_def)
    have "load_items (good @ bad # rest) ?w0 =
          (Some e, ?w0\<lparr>agents := zip (map fst good) as\<rparr>)"
      using load_items_good [OF d0 m, of "bad # rest"] b
      by (simp add: initial_world_def)
    then show ?thesis
      by (simp add: load_agents_def initial_world_def print_stderr_def)
  qed
  from 1 2 3 4 show ?thesis by blast
qed

theorem load_agents_faults_witness:
  "load_agents (initial_world Missing True) = (initial_world Missing True)\<lparr>stderr := [Loaded 0]\<rparr> \<and>
   load_agents (initial_world (Doc (JStr ''x'')) True) =
     (initial_world (Doc (JStr ''x'')) True)\<lparr>stderr := [Load_error AttributeError]\<rparr> \<and>
   load_agents (initial_world half_good_file True) =
     (initial_world half_good_file True)
        \<lparr>agents := [(''A'', \<lparr>name = ''A'', model = default_model, instructions = ''first'',
                             functions_of = []\<rparr>)],
         stderr := [Load_error (KeyError ''model'')]\<rparr>"
proof -
  let ?a = "\<lparr>name = ''A'', model = default_model, instructions = ''first'', functions_of = []\<rparr>"
  let ?good = "[(''A'', JObj [(''name'', JStr ''A''), (''model'', JStr default_model),
                            (''instructions'', JStr ''first'')])]"
  let ?bad = "(''B'', JObj [(''name'', JStr ''B'')])"
  have g: "distinct (map fst ?good) \<and> map (\<lambda>p. agent_of_json (snd p)) ?good = map Inr [?a] \<and>
    agent_of_json (snd ?bad) = Inl (KeyError ''model'')"
    by (simp add: agent_of_json_def subscript_def ClaudeAgent_def)
  have s: "\<forall>items. JStr ''x'' \<noteq> JObj items" by simp
  from load_agents_faults [of True "JStr ''x''" ?good "[?a]" ?bad "KeyError ''model''" "[]"] g s
  show ?thesis by (simp add: half_good_file_def)
qed

section \<open>The finance team\<close>

lemma team_specs_keys: "map fst (team_specs c) = team_roles"
  by (simp add: team_specs_def team_roles_def)

lemma team_roles_distinct: "distinct team_roles"
  by (simp add: team_roles_def)

lemma dict_contains_append:
  "dict_contains k (d @ e) = (dict_contains k d \<or> dict_contains k e)"
  by (auto simp: dict_contains_def dict_keys_def)

lemma key_not_absent:
  "q \<in> set xs \<Longrightarrow> k \<notin> set (map fst xs) \<Longrightarrow> fst q \<noteq> k"
  by (induction xs) auto

lemma create_missing_distinct:
  assumes "distinct (map fst specs)"
  shows "create_missing specs (reg, cr) =
         (reg @ map (\<lambda>p. (fst p, team_agent p)) (filter (\<lambda>p. \<not> dict_contains (fst p) reg) specs),
          cr @ map fst (filter (\<lambda>p. \<not> dict_contains (fst p) reg) specs))"
  using assms
proof (induction specs arbitrary: reg cr)
  case Nil
  then show ?case by simp
next
  case (Cons p specs)
  from Cons.prems have d: "distinct (map fst specs)" and np: "fst p \<notin> set (map fst specs)"
    by auto
  show ?case
  proof (cases "dict_contains (fst p) reg")
    case True
    then show ?thesis by (simp add: Cons.IH [OF d])
  next
    case False
    then have absent: "fst p \<notin> set (map fst reg)"
      by (simp add: dict_contains_def dict_keys_def)
    have other: "dict_contains (fst q) (reg @ [(fst p, team_agent p)]) = dict_contains (fst q) reg"
      if "q \<in> set specs" for q
    proof -
      from that np have "fst q \<noteq> fst p" by (rule key_not_absent)
      then show ?thesis by (simp add: dict_contains_def dict_keys_def)
    qed
    have same: "filter (\<lambda>q. \<not> dict_contains (fst q) (reg @ [(fst p, team_agent p)])) specs =
                filter (\<lambda>q. \<not> dict_contains (fst q) reg) specs"
      by (rule filter_cong [OF refl]) (simp add: other)
    from False show ?thesis
      by (simp add: Cons.IH [OF d] dict_set_keys_absent [OF absent] same)
  qed
qed

text \<open>
  What \<open>create_finance_team_handler\<close> does, in terms of the team items whose names are
  not yet in the registry.
\<close>

lemma create_finance_team_result:
  assumes "company = dict_get args ''company_name'' ''Investment Firm''"
    and "missing = filter (\<lambda>p. \<not> dict_contains (fst p) (agents w)) (team_specs company)"
  shows "create_finance_team_handler args w =
     (if missing \<noteq> [] then
        (team_header company @ team_created (map fst missing),
         print_stderr (Created_team (map fst missing))
           (save_agents
              ((setup_transfer_functions
                  (w\<lparr>agents := agents w @ map (\<lambda>p. (fst p, team_agent p)) missing\<rparr>))
               \<lparr>current_agent := Some ''Risk_Analyst''\<rparr>)))
      else (team_header company @ team_already_exists company, w))"
proof -
  have d: "distinct (map fst (team_specs company))"
    by (simp add: team_specs_keys team_roles_distinct)
  show ?thesis
    unfolding create_finance_team_handler_def Let_def
    by (simp add: create_missing_distinct [OF d] assms [symmetric])
qed

lemma save_agents_registry: "agents (save_agents w) = agents w"
  by (simp add: save_agents_def open_w_def json_dump_def print_stderr_def)

lemma create_finance_team_agents:
  assumes "company = dict_get args ''company_name'' ''Investment Firm''"
    and "missing = filter (\<lambda>p. \<not> dict_contains (fst p) (agents w)) (team_specs company)"
  shows "agents (snd (create_finance_team_handler args w)) =
     (if missing \<noteq> [] then rebuild (agents w @ map (\<lambda>p. (fst p, team_agent p)) missing)
      else agents w)"
  unfolding create_finance_team_result [OF assms]
  by (simp add: print_stderr_def save_agents_registry setup_transfer_functions_def)

lemma success_texts:
  "is_success_text (team_header c @ t)"
  "is_success_text (created_swarm_agent n)"
  by (simp_all add: is_success_text_def team_header_def created_swarm_agent_def check_mark_def)

text \<open>
  C6. The first call of \<open>create_finance_team\<close> adds, after the agents already
  registered, exactly the team roles whose names were not yet keys of the registry, in
  the order of the team, each with the role's model and instructions; name, model and
  instructions of the agents present before are unchanged, and afterwards all four roles
  are registered. On a registry with none of the four names the four roles are created.
  A second call with the same arguments creates nothing and returns the state
  unchanged. Both replies are success texts, and the second is the
  \<open>Team already exists\<close> text.
\<close>

theorem create_finance_team_twice:
  assumes "company = dict_get args ''company_name'' ''Investment Firm''"
    and "r1 = create_finance_team_handler args w"
    and "r2 = create_finance_team_handler args (snd r1)"
  shows "map (\<lambda>p. (fst p, name (snd p), model (snd p), instructions (snd p))) (agents (snd r1)) =
           map (\<lambda>p. (fst p, name (snd p), model (snd p), instructions (snd p))) (agents w) @
           map (\<lambda>p. (fst p, fst p, spec_model (snd p), spec_instructions (snd p)))
             (filter (\<lambda>p. \<not> dict_contains (fst p) (agents w)) (team_specs company)) \<and>
         (\<forall>k \<in> set team_roles. dict_contains k (agents (snd r1))) \<and>
         ((\<forall>k \<in> set team_roles. \<not> dict_contains k (agents w)) \<longrightarrow>
            map fst (agents (snd r1)) = map fst (agents w) @ team_roles \<and>
            fst r1 = team_header company @ team_created team_roles) \<and>
         snd r2 = snd r1 \<and>
         agents (snd r2) = agents (snd r1) \<and>
         fst r2 = team_header company @ team_already_exists company \<and>
         is_success_text (fst r1) \<and> is_success_text (fst r2)"
proof -
  let ?specs = "team_specs company"
  let ?missing = "filter (\<lambda>p. \<not> dict_contains (fst p) (agents w)) ?specs"
  let ?fields = "\<lambda>p::string \<times> agent. (fst p, name (snd p), model (snd p), instructions (snd p))"
  have ag: "agents (snd r1) =
     (if ?missing \<noteq> [] then rebuild (agents w @ map (\<lambda>p. (fst p, team_agent p)) ?missing)
      else agents w)"
    unfolding assms(2) by (rule create_finance_team_agents [OF assms(1) refl])
  have fields: "map ?fields (agents (snd r1)) =
      map ?fields (agents w) @
      map (\<lambda>p. (fst p, fst p, spec_model (snd p), spec_instructions (snd p))) ?missing"
  proof (cases "?missing = []")
    case True
    with ag show ?thesis by simp
  next
    case False
    with ag have "agents (snd r1) = rebuild (agents w @ map (\<lambda>p. (fst p, team_agent p)) ?missing)"
      by simp
    then have "map ?fields (agents (snd r1)) =
        map ?fields (agents w @ map (\<lambda>p. (fst p, team_agent p)) ?missing)"
      by (simp only: rebuild_fields)
    then show ?thesis by (simp add: comp_def team_agent_def)
  qed
  have keys: "map fst (agents (snd r1)) = map fst (agents w) @ map fst ?missing"
  proof -
    have "map fst (agents (snd r1)) = map fst (map ?fields (agents (snd r1)))"
      by (simp add: comp_def)
    also have "\<dots> = map fst (agents w) @ map fst ?missing"
      unfolding fields by (simp add: comp_def)
    finally show ?thesis .
  qed
  have all: "\<forall>k \<in> set team_roles. dict_contains k (agents (snd r1))"
  proof
    fix k assume "k \<in> set team_roles"
    then obtain p where p: "p \<in> set ?specs" "fst p = k"
      unfolding team_specs_keys [of company, symmetric] by auto
    show "dict_contains k (agents (snd r1))"
    proof (cases "dict_contains k (agents w)")
      case True
      then show ?thesis by (simp add: dict_contains_def dict_keys_def keys)
    next
      case False
      with p have "p \<in> set ?missing" by simp
      with p(2) have "k \<in> set (map fst ?missing)" by force
      then show ?thesis by (simp add: dict_contains_def dict_keys_def keys)
    qed
  qed
  have none: "map fst (agents (snd r1)) = map fst (agents w) @ team_roles \<and>
            fst r1 = team_header company @ team_created team_roles"
    if "\<forall>k \<in> set team_roles. \<not> dict_contains k (agents w)"
  proof -
    from that have "\<forall>p \<in> set ?specs. \<not> dict_contains (fst p) (agents w)"
      unfolding team_specs_keys [of company, symmetric] by simp
    then have m: "?missing = ?specs" by (simp add: filter_True)
    have ne: "?specs \<noteq> []" by (simp add: team_specs_def)
    from m keys have k: "map fst (agents (snd r1)) = map fst (agents w) @ team_roles"
      by (simp add: team_specs_keys)
    from m ne have "fst r1 = team_header company @ team_created team_roles"
      unfolding assms(2) create_finance_team_result [OF assms(1) refl]
      by (simp add: team_specs_keys)
    with k show ?thesis by simp
  qed
  have second: "filter (\<lambda>p. \<not> dict_contains (fst p) (agents (snd r1))) ?specs = []"
    using all unfolding team_specs_keys [of company, symmetric] by (auto simp: filter_empty_conv)
  have r2: "r2 = (team_header company @ team_already_exists company, snd r1)"
    unfolding assms(3) create_finance_team_result [OF assms(1) refl, of "snd r1"]
    by (simp add: second)
  have s1: "is_success_text (fst r1)"
    unfolding assms(2) create_finance_team_result [OF assms(1) refl]
    by (simp add: success_texts)
  have s2: "is_success_text (fst r2)"
    by (simp add: r2 success_texts)
  from fields all none r2 s1 s2 show ?thesis by simp
qed

theorem create_finance_team_twice_witness:
  "map fst (agents (snd (create_finance_team_handler [(''company_name'', ''Acme'')] world_A))) =
     [''A'', ''Risk_Analyst'', ''Portfolio_Manager'', ''Data_Analyst'', ''Research_Analyst''] \<and>
   fst (create_finance_team_handler [(''company_name'', ''Acme'')] world_A) =
     team_header ''Acme'' @ team_created team_roles \<and>
   create_finance_team_handler [(''company_name'', ''Acme'')]
       (snd (create_finance_team_handler [(''company_name'', ''Acme'')] world_A)) =
     (team_header ''Acme'' @ team_already_exists ''Acme'',
      snd (create_finance_team_handler [(''company_name'', ''Acme'')] world_A))"
proof -
  let ?args = "[(''company_name'', ''Acme'')]"
  have c: "''Acme'' = dict_get ?args ''company_name'' ''Investment Firm''"
    by (simp add: dict_get_def)
  have n: "\<forall>k \<in> set team_roles. \<not> dict_contains k (agents world_A)"
    by (simp add: team_roles_def dict_contains_def dict_keys_def world_A_agents)
  from create_finance_team_twice [OF c refl refl] n
  show ?thesis
    by (simp add: world_A_agents team_roles_def prod_eq_iff)
qed

end
